theory Spec2Isabelle
  imports Main
begin

section \<open>Simple live fixes: the startup patch applier\<close>

text \<open>
  The module \<^verbatim>\<open>simple_live_fixes.py\<close> has five adjustment routines, the dispatcher
  \<^verbatim>\<open>apply_fixes\<close> and the status report \<^verbatim>\<open>get_fix_status\<close>. Every routine acts on
  process-global state only, so the embedding threads that state, the \<open>world\<close>, through
  each function, and a function returns the exception it raises (if any) together with
  the world it leaves behind: what a routine has changed before it raises stays changed.
\<close>

subsection \<open>Exceptions\<close>

text \<open>
  The exceptions of the model are the instances of Python's class \<^verbatim>\<open>Exception\<close> (the
  non-system-exiting exceptions, those that report a failure). \<^verbatim>\<open>ImportError\<close> (with
  its subclasses, such as \<^verbatim>\<open>ModuleNotFoundError\<close>) is kept apart from all the others
  because two routines handle it in a clause of its own. The string is the text that
  \<^verbatim>\<open>str(e)\<close> gives. System-exiting exceptions (\<^verbatim>\<open>SystemExit\<close>, \<^verbatim>\<open>KeyboardInterrupt\<close>),
  which no handler of the module names, are not part of the model.
\<close>

datatype exn = ImportError string | OtherException string

fun str_of :: "exn \<Rightarrow> string" where
  "str_of (ImportError m) = m"
| "str_of (OtherException m) = m"

text \<open>The two handler clauses of the module: \<^verbatim>\<open>except ImportError\<close> and \<^verbatim>\<open>except Exception\<close>.\<close>

datatype clause = Except_ImportError | Except_Exception

fun matches :: "clause \<Rightarrow> exn \<Rightarrow> bool" where
  "matches Except_ImportError (ImportError m) = True"
| "matches Except_ImportError (OtherException m) = False"
| "matches Except_Exception e = True"

subsection \<open>The world: process-global state\<close>

datatype level = DEBUG | INFO | WARNING

text \<open>One constructor for each log line of the module; the argument is the text of the
  exception that the line formats.\<close>

datatype msg =
    All_fixes_applied
  | Error_applying_fixes string
  | Pandas_warnings_suppressed
  | Pandas_not_available
  | Failed_pandas_warnings string
  | Asyncio_policy_set
  | Failed_asyncio_warnings string
  | Binance_timeouts_optimized
  | Failed_binance_timeouts string
  | Signal_handling_improved
  | Numpy_not_available
  | Failed_signal_calculations string
  | Memory_optimizations_applied
  | Failed_memory_usage string

datatype routine =
    Fix_pandas_warnings
  | Fix_asyncio_warnings
  | Fix_binance_client_timeouts
  | Fix_signal_calculations
  | Optimize_memory_usage

text \<open>An entry of \<^verbatim>\<open>warnings.filters\<close>: action, message pattern, category, module pattern.\<close>

datatype wfilter = WFilter string string string string

datatype policy = WindowsProactorEventLoopPolicy | Other_policy string

record errstate =
  err_divide :: string
  err_over :: string
  err_under :: string
  err_invalid :: string

text \<open>
  \<open>environ\<close> is \<^verbatim>\<open>os.environ\<close>, \<open>warning_filters\<close> is \<^verbatim>\<open>warnings.filters\<close>,
  \<open>event_loop_policy\<close> is the policy of asyncio (\<open>None\<close> while none has been set),
  \<open>np_errstate\<close> is the error mode of the numeric library, \<open>gc_collections\<close> counts the
  forced full collections and \<open>gc_threshold\<close> holds the collector's thresholds.
  \<open>log_records\<close> is what the module's logger has been handed. \<open>routine_calls\<close> is a
  ghost field: every routine appends its name when it is entered, so that the order of
  the invocations can be stated.
\<close>

record world =
  environ :: "string \<rightharpoonup> string"
  warning_filters :: "wfilter list"
  event_loop_policy :: "policy option"
  np_errstate :: errstate
  gc_collections :: nat
  gc_threshold :: "nat \<times> nat \<times> nat"
  log_records :: "(level \<times> msg) list"
  routine_calls :: "routine list"

subsection \<open>The host: what the module's surroundings answer\<close>

text \<open>
  The calls into libraries whose outcome the module does not control. For each of them
  the host says whether it returns (\<open>None\<close>) or raises (\<open>Some e\<close>). An optional library
  is absent when its import raises \<^verbatim>\<open>ImportError\<close>, present when the import returns, and
  partially present (a broken installation) when the import raises something else.
\<close>

datatype call =
    Import_pandas
  | Filterwarnings_FutureWarning
  | Filterwarnings_DataFrame_fillna
  | Filterwarnings_Series_fillna
  | Set_event_loop_policy
  | Import_numpy
  | Np_seterr
  | Gc_collect
  | Gc_set_threshold

text \<open>
  The logger is such a call too: \<^verbatim>\<open>logger.debug\<close>, \<^verbatim>\<open>logger.info\<close> and
  \<^verbatim>\<open>logger.warning\<close> run the handlers and filters that the application has attached, and
  the statement formats the exception with \<^verbatim>\<open>str(e)\<close> first; either can raise.
  \<open>log_raises h l m\<close> is what the statement that logs \<open>m\<close> at level \<open>l\<close> raises, if anything.
  \<open>import_effect h c\<close> is what a successful import does to \<^verbatim>\<open>warnings.filters\<close> (a library
  may register filters of its own while it is loaded; the identity when the module is
  loaded already). The imports of the standard library (\<^verbatim>\<open>warnings\<close>, \<^verbatim>\<open>asyncio\<close>,
  \<^verbatim>\<open>platform\<close>, \<^verbatim>\<open>os\<close>, \<^verbatim>\<open>gc\<close>), \<^verbatim>\<open>platform.system()\<close>, \<^verbatim>\<open>hasattr\<close> and the reads
  and writes of the mapping \<^verbatim>\<open>os.environ\<close> with the module's constant keys return.
\<close>

record host =
  raises :: "call \<Rightarrow> exn option"
  log_raises :: "level \<Rightarrow> msg \<Rightarrow> exn option"
  import_effect :: "call \<Rightarrow> wfilter list \<Rightarrow> wfilter list"
  platform_system :: string
  has_WindowsProactorEventLoopPolicy :: bool

subsection \<open>Statements, sequencing and try/except\<close>

text \<open>A block of statements over a state \<open>'s\<close>: the exception it raises, if any, and the
  state it leaves.\<close>

type_synonym 's proc = "'s \<Rightarrow> exn option \<times> 's"

definition returns :: "'s proc" where
  "returns s = (None, s)"

definition andthen :: "'s proc \<Rightarrow> 's proc \<Rightarrow> 's proc" where
  "andthen p q s = (case p s of (None, s') \<Rightarrow> q s' | (Some e, s') \<Rightarrow> (Some e, s'))"

text \<open>The clauses of a \<^verbatim>\<open>try\<close> statement are tried in order; an exception that no clause
  matches propagates. A handler is a block itself and may raise.\<close>

fun dispatch :: "(clause \<times> (exn \<Rightarrow> 's proc)) list \<Rightarrow> exn \<Rightarrow> 's proc" where
  "dispatch [] e s = (Some e, s)"
| "dispatch ((c, handler) # cs) e s = (if matches c e then handler e s else dispatch cs e s)"

definition try_except :: "'s proc \<Rightarrow> (clause \<times> (exn \<Rightarrow> 's proc)) list \<Rightarrow> 's proc" where
  "try_except body cs s = (case body s of (None, s') \<Rightarrow> (None, s') | (Some e, s') \<Rightarrow> dispatch cs e s')"

text \<open>A library call: it raises what the host says, and takes effect only when it returns.\<close>

definition lib_call :: "host \<Rightarrow> call \<Rightarrow> (world \<Rightarrow> world) \<Rightarrow> world proc" where
  "lib_call h c effect w = (case raises h c of Some e \<Rightarrow> (Some e, w) | None \<Rightarrow> (None, effect w))"

text \<open>A logging statement: it raises what the host says, and otherwise hands the record
  to the log.\<close>

definition logger :: "host \<Rightarrow> level \<Rightarrow> msg \<Rightarrow> world proc" where
  "logger h l m w =
     (case log_raises h l m of
        Some e \<Rightarrow> (Some e, w)
      | None \<Rightarrow> (None, w\<lparr>log_records := log_records w @ [(l, m)]\<rparr>))"

definition enter :: "routine \<Rightarrow> world proc" where
  "enter r w = (None, w\<lparr>routine_calls := routine_calls w @ [r]\<rparr>)"

subsection \<open>The effects of the library calls\<close>

text \<open>\<^verbatim>\<open>warnings.filterwarnings\<close> puts the entry at the front of the list, after removing
  an equal entry.\<close>

definition filterwarnings :: "wfilter \<Rightarrow> world \<Rightarrow> world" where
  "filterwarnings f w = w\<lparr>warning_filters := f # remove1 f (warning_filters w)\<rparr>"

definition set_event_loop_policy :: "policy \<Rightarrow> world \<Rightarrow> world" where
  "set_event_loop_policy p w = w\<lparr>event_loop_policy := Some p\<rparr>"

text \<open>\<^verbatim>\<open>np.seterr(divide='ignore', invalid='ignore')\<close> leaves the other two modes.\<close>

definition seterr_divide_invalid :: "string \<Rightarrow> string \<Rightarrow> world \<Rightarrow> world" where
  "seterr_divide_invalid d i w = w\<lparr>np_errstate := (np_errstate w)\<lparr>err_divide := d, err_invalid := i\<rparr>\<rparr>"

text \<open>A successful \<^verbatim>\<open>import\<close> of an optional library.\<close>

definition import_module :: "host \<Rightarrow> call \<Rightarrow> world \<Rightarrow> world" where
  "import_module h c w = w\<lparr>warning_filters := import_effect h c (warning_filters w)\<rparr>"

definition gc_collect :: "world \<Rightarrow> world" where
  "gc_collect w = w\<lparr>gc_collections := Suc (gc_collections w)\<rparr>"

definition gc_set_threshold :: "nat \<Rightarrow> nat \<Rightarrow> nat \<Rightarrow> world \<Rightarrow> world" where
  "gc_set_threshold a b c w = w\<lparr>gc_threshold := (a, b, c)\<rparr>"

text \<open>\<^verbatim>\<open>os.getenv(k)\<close> is \<^verbatim>\<open>os.environ.get(k)\<close>; \<^verbatim>\<open>not v\<close> holds of \<^verbatim>\<open>None\<close> and of the
  empty string.\<close>

definition getenv :: "string \<Rightarrow> world \<Rightarrow> string option" where
  "getenv k w = environ w k"

fun falsy :: "string option \<Rightarrow> bool" where
  "falsy None = True"
| "falsy (Some v) = (v = [])"

definition setenv :: "string \<Rightarrow> string \<Rightarrow> world \<Rightarrow> world" where
  "setenv k v w = w\<lparr>environ := (environ w)(k \<mapsto> v)\<rparr>"

definition setenv_if_unset :: "string \<Rightarrow> string \<Rightarrow> world proc" where
  "setenv_if_unset k v w = (if falsy (getenv k w) then (None, setenv k v w) else (None, w))"

subsection \<open>The five adjustment routines\<close>

definition fix_pandas_warnings :: "host \<Rightarrow> world proc" where
  "fix_pandas_warnings h =
     andthen (enter Fix_pandas_warnings)
       (try_except
          (andthen (lib_call h Import_pandas (import_module h Import_pandas))
          (andthen (lib_call h Filterwarnings_FutureWarning
                      (filterwarnings (WFilter ''ignore'' '''' ''FutureWarning'' ''pandas'')))
          (andthen (lib_call h Filterwarnings_DataFrame_fillna
                      (filterwarnings (WFilter ''ignore'' ''.*DataFrame.fillna.*'' ''Warning'' '''')))
          (andthen (lib_call h Filterwarnings_Series_fillna
                      (filterwarnings (WFilter ''ignore'' ''.*Series.fillna.*'' ''Warning'' '''')))
                   (logger h DEBUG Pandas_warnings_suppressed)))))
          [(Except_ImportError, \<lambda>e. logger h DEBUG Pandas_not_available),
           (Except_Exception, \<lambda>e. logger h DEBUG (Failed_pandas_warnings (str_of e)))])"

definition fix_asyncio_warnings :: "host \<Rightarrow> world proc" where
  "fix_asyncio_warnings h =
     andthen (enter Fix_asyncio_warnings)
       (try_except
          (if platform_system h = ''Windows'' then
             (if has_WindowsProactorEventLoopPolicy h then
                andthen (lib_call h Set_event_loop_policy
                           (set_event_loop_policy WindowsProactorEventLoopPolicy))
                        (logger h DEBUG Asyncio_policy_set)
              else returns)
           else returns)
          [(Except_Exception, \<lambda>e. logger h DEBUG (Failed_asyncio_warnings (str_of e)))])"

definition fix_binance_client_timeouts :: "host \<Rightarrow> world proc" where
  "fix_binance_client_timeouts h =
     andthen (enter Fix_binance_client_timeouts)
       (try_except
          (andthen (setenv_if_unset ''BINANCE_API_TIMEOUT'' ''30'')
          (andthen (setenv_if_unset ''BINANCE_MAX_RETRIES'' ''3'')
                   (logger h DEBUG Binance_timeouts_optimized)))
          [(Except_Exception, \<lambda>e. logger h DEBUG (Failed_binance_timeouts (str_of e)))])"

definition fix_signal_calculations :: "host \<Rightarrow> world proc" where
  "fix_signal_calculations h =
     andthen (enter Fix_signal_calculations)
       (try_except
          (andthen (lib_call h Import_numpy (import_module h Import_numpy))
          (andthen (lib_call h Np_seterr (seterr_divide_invalid ''ignore'' ''ignore''))
                   (logger h DEBUG Signal_handling_improved)))
          [(Except_ImportError, \<lambda>e. logger h DEBUG Numpy_not_available),
           (Except_Exception, \<lambda>e. logger h DEBUG (Failed_signal_calculations (str_of e)))])"

definition optimize_memory_usage :: "host \<Rightarrow> world proc" where
  "optimize_memory_usage h =
     andthen (enter Optimize_memory_usage)
       (try_except
          (andthen (lib_call h Gc_collect gc_collect)
          (andthen (lib_call h Gc_set_threshold (gc_set_threshold 700 10 10))
                   (logger h DEBUG Memory_optimizations_applied)))
          [(Except_Exception, \<lambda>e. logger h DEBUG (Failed_memory_usage (str_of e)))])"

subsection \<open>The dispatcher\<close>

definition apply_fixes :: "host \<Rightarrow> world proc" where
  "apply_fixes h =
     try_except
       (andthen (fix_pandas_warnings h)
       (andthen (fix_asyncio_warnings h)
       (andthen (fix_binance_client_timeouts h)
       (andthen (fix_signal_calculations h)
       (andthen (optimize_memory_usage h)
                (logger h INFO All_fixes_applied))))))
       [(Except_Exception, \<lambda>e. logger h WARNING (Error_applying_fixes (str_of e)))]"

subsection \<open>The status report\<close>

text \<open>The dictionary \<^verbatim>\<open>fixes\<close> is a local variable of \<^verbatim>\<open>get_fix_status\<close>; its body runs
  on the pair of that dictionary and the world.\<close>

type_synonym fixes_dict = "string \<rightharpoonup> bool"

definition on_world :: "world proc \<Rightarrow> (fixes_dict \<times> world) proc" where
  "on_world p = (\<lambda>(fixes_dict, w). case p w of (r, w') \<Rightarrow> (r, (fixes_dict, w')))"

definition set_fix :: "string \<Rightarrow> bool \<Rightarrow> (fixes_dict \<times> world) proc" where
  "set_fix k b = (\<lambda>(fixes_dict, w). (None, (fixes_dict(k \<mapsto> b), w)))"

definition initial_fixes :: fixes_dict where
  "initial_fixes =
     [''pandas_warnings'' \<mapsto> False,
      ''asyncio_warnings'' \<mapsto> False,
      ''binance_timeouts'' \<mapsto> False,
      ''signal_calculations'' \<mapsto> False,
      ''memory_optimization'' \<mapsto> False]"

text \<open>One \<^verbatim>\<open>try: routine(); fixes[k] = True / except Exception: pass\<close> block.\<close>

definition try_fix :: "world proc \<Rightarrow> string \<Rightarrow> (fixes_dict \<times> world) proc" where
  "try_fix p k =
     try_except (andthen (on_world p) (set_fix k True)) [(Except_Exception, \<lambda>e. returns)]"

definition get_fix_status_body :: "host \<Rightarrow> (fixes_dict \<times> world) proc" where
  "get_fix_status_body h =
     andthen (try_fix (fix_pandas_warnings h) ''pandas_warnings'')
    (andthen (try_fix (fix_asyncio_warnings h) ''asyncio_warnings'')
    (andthen (try_fix (fix_binance_client_timeouts h) ''binance_timeouts'')
    (andthen (try_fix (fix_signal_calculations h) ''signal_calculations'')
             (try_fix (optimize_memory_usage h) ''memory_optimization''))))"

text \<open>The result: the exception raised (\<open>Inl\<close>) or the dictionary returned (\<open>Inr\<close>), and
  the world left behind.\<close>

definition get_fix_status :: "host \<Rightarrow> world \<Rightarrow> (exn + fixes_dict) \<times> world" where
  "get_fix_status h w =
     (case get_fix_status_body h (initial_fixes, w) of
        (None, (fixes_dict, w')) \<Rightarrow> (Inr fixes_dict, w')
      | (Some e, (fixes_dict, w')) \<Rightarrow> (Inl e, w'))"

subsection \<open>Which calls a run reaches, and the record a failure leaves\<close>

text \<open>
  Read off the routines: a library call is reached when the calls before it in the same
  \<^verbatim>\<open>try\<close> block have returned (and, for the event-loop policy, when the two tests
  around it hold); \<open>failure_record c e\<close> is the message that the handler taking \<open>e\<close>
  logs when the call \<open>c\<close> raises it; \<open>owner c\<close> is the routine that makes the call.
  They are used to state that a failure is logged, when the logger itself returns.
\<close>

fun reached :: "host \<Rightarrow> call \<Rightarrow> bool" where
  "reached h Import_pandas = True"
| "reached h Filterwarnings_FutureWarning = (raises h Import_pandas = None)"
| "reached h Filterwarnings_DataFrame_fillna =
     (raises h Import_pandas = None \<and> raises h Filterwarnings_FutureWarning = None)"
| "reached h Filterwarnings_Series_fillna =
     (raises h Import_pandas = None \<and> raises h Filterwarnings_FutureWarning = None
      \<and> raises h Filterwarnings_DataFrame_fillna = None)"
| "reached h Set_event_loop_policy =
     (platform_system h = ''Windows'' \<and> has_WindowsProactorEventLoopPolicy h)"
| "reached h Import_numpy = True"
| "reached h Np_seterr = (raises h Import_numpy = None)"
| "reached h Gc_collect = True"
| "reached h Gc_set_threshold = (raises h Gc_collect = None)"

fun failure_record :: "call \<Rightarrow> exn \<Rightarrow> msg" where
  "failure_record Set_event_loop_policy e = Failed_asyncio_warnings (str_of e)"
| "failure_record Import_numpy e =
     (if matches Except_ImportError e then Numpy_not_available
      else Failed_signal_calculations (str_of e))"
| "failure_record Np_seterr e =
     (if matches Except_ImportError e then Numpy_not_available
      else Failed_signal_calculations (str_of e))"
| "failure_record Gc_collect e = Failed_memory_usage (str_of e)"
| "failure_record Gc_set_threshold e = Failed_memory_usage (str_of e)"
| "failure_record c e =
     (if matches Except_ImportError e then Pandas_not_available
      else Failed_pandas_warnings (str_of e))"

definition owner :: "call \<Rightarrow> routine" where
  "owner c = (case c of
      Set_event_loop_policy \<Rightarrow> Fix_asyncio_warnings
    | Import_numpy \<Rightarrow> Fix_signal_calculations
    | Np_seterr \<Rightarrow> Fix_signal_calculations
    | Gc_collect \<Rightarrow> Optimize_memory_usage
    | Gc_set_threshold \<Rightarrow> Optimize_memory_usage
    | _ \<Rightarrow> Fix_pandas_warnings)"

subsection \<open>Example inputs\<close>

text \<open>A POSIX host with neither optional library installed, and a process that has
  set nothing yet.\<close>

definition bare_posix_host :: host where
  "bare_posix_host =
     \<lparr>raises = (\<lambda>c. if c = Import_pandas then Some (ImportError ''No module named pandas'')
                     else if c = Import_numpy then Some (ImportError ''No module named numpy'')
                     else None),
      log_raises = (\<lambda>l m. None),
      import_effect = (\<lambda>c fs. fs),
      platform_system = ''Linux'',
      has_WindowsProactorEventLoopPolicy = False\<rparr>"

definition fresh_world :: world where
  "fresh_world =
     \<lparr>environ = Map.empty,
      warning_filters = [],
      event_loop_policy = None,
      np_errstate = \<lparr>err_divide = ''warn'', err_over = ''warn'', err_under = ''ignore'', err_invalid = ''warn''\<rparr>,
      gc_collections = 0,
      gc_threshold = (2000, 10, 10),
      log_records = [],
      routine_calls = []\<rparr>"

text \<open>A Windows host whose data-frame library is installed but broken, and whose numeric
  library rejects the error mode.\<close>

definition broken_windows_host :: host where
  "broken_windows_host =
     \<lparr>raises = (\<lambda>c. if c = Import_pandas then Some (OtherException ''numpy.dtype size changed'')
                     else if c = Np_seterr then Some (OtherException ''bad mode'')
                     else None),
      log_raises = (\<lambda>l m. None),
      import_effect = (\<lambda>c fs. fs),
      platform_system = ''Windows'',
      has_WindowsProactorEventLoopPolicy = True\<rparr>"

text \<open>The POSIX host again, with a log handler that raises on every record; and with one
  that raises on the records of level \<^verbatim>\<open>DEBUG\<close> only.\<close>

definition sink_down_host :: host where
  "sink_down_host = bare_posix_host\<lparr>log_raises := (\<lambda>l m. Some (OtherException ''log sink down''))\<rparr>"

definition debug_down_host :: host where
  "debug_down_host =
     bare_posix_host\<lparr>log_raises :=
       (\<lambda>l m. if l = DEBUG then Some (OtherException ''log sink down'') else None)\<rparr>"

section \<open>Properties of the routines\<close>

lemmas effect_defs = filterwarnings_def import_module_def set_event_loop_policy_def
  seterr_divide_invalid_def gc_collect_def gc_set_threshold_def getenv_def setenv_def

subsection \<open>Blocks that return\<close>

lemma andthen_returns: "fst (p s) = None \<Longrightarrow> andthen p q s = q (snd (p s))"
  by (cases "p s") (simp add: andthen_def)

lemma andthen_raises: "fst (p s) = Some e \<Longrightarrow> andthen p q s = (Some e, snd (p s))"
  by (cases "p s") (simp add: andthen_def)

lemma try_except_returns: "fst (body s) = None \<Longrightarrow> try_except body cs s = body s"
  by (cases "body s") (simp add: try_except_def)

lemma try_except_raises:
  "fst (body s) = Some e \<Longrightarrow> try_except body cs s = dispatch cs e (snd (body s))"
  by (cases "body s") (simp add: try_except_def)

lemma enter_returns: "fst (enter r w) = None"
  by (simp add: enter_def)

lemma setenv_if_unset_returns: "fst (setenv_if_unset k v w) = None"
  by (simp add: setenv_if_unset_def)

subsection \<open>A field that every part of a block leaves alone\<close>

lemma andthen_keeps:
  assumes "\<And>s. f (snd (p s)) = f s" and "\<And>s. f (snd (q s)) = f s"
  shows "f (snd (andthen p q s)) = f s"
proof (cases "p s")
  case (Pair r s')
  then have "f s' = f s" using assms(1) [of s] by simp
  then show ?thesis using Pair assms(2) [of s'] by (cases r) (simp_all add: andthen_def)
qed

lemma dispatch_keeps:
  assumes "\<And>c handler e s. (c, handler) \<in> set cs \<Longrightarrow> f (snd (handler e s)) = f s"
  shows "f (snd (dispatch cs e s)) = f s"
  using assms by (induction cs e s rule: dispatch.induct) auto

lemma try_except_keeps:
  assumes "\<And>s. f (snd (body s)) = f s"
    and "\<And>c handler e s. (c, handler) \<in> set cs \<Longrightarrow> f (snd (handler e s)) = f s"
  shows "f (snd (try_except body cs s)) = f s"
proof (cases "body s")
  case (Pair r s')
  then have "f s' = f s" using assms(1) [of s] by simp
  moreover have "f (snd (dispatch cs e s')) = f s'" for e
    by (rule dispatch_keeps) (rule assms(2))
  ultimately show ?thesis
    using Pair by (cases r) (simp_all add: try_except_def)
qed

lemma lib_call_keeps:
  assumes "\<And>s. f (effect s) = f s"
  shows "f (snd (lib_call h c effect s)) = f s"
  using assms by (simp add: lib_call_def split: option.splits)

lemma returns_keeps: "f (snd (returns s)) = f s"
  by (simp add: returns_def)

lemma logger_keeps:
  "environ (snd (logger h l m w)) = environ w"
  "routine_calls (snd (logger h l m w)) = routine_calls w"
  "warning_filters (snd (logger h l m w)) = warning_filters w"
  "event_loop_policy (snd (logger h l m w)) = event_loop_policy w"
  "np_errstate (snd (logger h l m w)) = np_errstate w"
  by (simp_all add: logger_def split: option.splits)

lemma setenv_if_unset_keeps:
  "routine_calls (snd (setenv_if_unset k v w)) = routine_calls w"
  "warning_filters (snd (setenv_if_unset k v w)) = warning_filters w"
  "event_loop_policy (snd (setenv_if_unset k v w)) = event_loop_policy w"
  "np_errstate (snd (setenv_if_unset k v w)) = np_errstate w"
  by (simp_all add: setenv_if_unset_def setenv_def)

lemmas environ_keeps = andthen_keeps [where f = environ] try_except_keeps [where f = environ]
  lib_call_keeps [where f = environ] returns_keeps [where f = environ]

lemmas calls_keeps = andthen_keeps [where f = routine_calls]
  try_except_keeps [where f = routine_calls] lib_call_keeps [where f = routine_calls]
  returns_keeps [where f = routine_calls]

subsection \<open>The environment variables\<close>

lemma fix_pandas_warnings_environ: "environ (snd (fix_pandas_warnings h w)) = environ w"
  unfolding fix_pandas_warnings_def
  by (intro environ_keeps) (auto simp: logger_keeps enter_def effect_defs)

lemma fix_asyncio_warnings_environ: "environ (snd (fix_asyncio_warnings h w)) = environ w"
  unfolding fix_asyncio_warnings_def
  by (intro environ_keeps) (auto simp: logger_keeps enter_def effect_defs intro!: environ_keeps)

lemma fix_signal_calculations_environ: "environ (snd (fix_signal_calculations h w)) = environ w"
  unfolding fix_signal_calculations_def
  by (intro environ_keeps) (auto simp: logger_keeps enter_def effect_defs)

lemma optimize_memory_usage_environ: "environ (snd (optimize_memory_usage h w)) = environ w"
  unfolding optimize_memory_usage_def
  by (intro environ_keeps) (auto simp: logger_keeps enter_def effect_defs)

subsection \<open>The trace of the routines entered\<close>

lemma entered:
  assumes "\<And>s. routine_calls (snd (p s)) = routine_calls s"
  shows "routine_calls (snd (andthen (enter r) p w)) = routine_calls w @ [r]"
  by (simp add: andthen_returns enter_returns assms) (simp add: enter_def)

lemma fix_pandas_warnings_calls:
  "routine_calls (snd (fix_pandas_warnings h w)) = routine_calls w @ [Fix_pandas_warnings]"
  unfolding fix_pandas_warnings_def
  by (rule entered, intro calls_keeps) (auto simp: logger_keeps effect_defs)

lemma fix_asyncio_warnings_calls:
  "routine_calls (snd (fix_asyncio_warnings h w)) = routine_calls w @ [Fix_asyncio_warnings]"
  unfolding fix_asyncio_warnings_def
  by (rule entered, intro calls_keeps) (auto simp: logger_keeps effect_defs intro!: calls_keeps)

lemma fix_binance_client_timeouts_calls:
  "routine_calls (snd (fix_binance_client_timeouts h w)) =
     routine_calls w @ [Fix_binance_client_timeouts]"
  unfolding fix_binance_client_timeouts_def
  by (rule entered, intro calls_keeps) (auto simp: logger_keeps setenv_if_unset_keeps)

lemma fix_signal_calculations_calls:
  "routine_calls (snd (fix_signal_calculations h w)) = routine_calls w @ [Fix_signal_calculations]"
  unfolding fix_signal_calculations_def
  by (rule entered, intro calls_keeps) (auto simp: logger_keeps effect_defs)

lemma optimize_memory_usage_calls:
  "routine_calls (snd (optimize_memory_usage h w)) = routine_calls w @ [Optimize_memory_usage]"
  unfolding optimize_memory_usage_def
  by (rule entered, intro calls_keeps) (auto simp: logger_keeps effect_defs)

subsection \<open>The timeout defaults\<close>

lemma fix_binance_client_timeouts_environ:
  "environ (snd (fix_binance_client_timeouts h w)) =
     (let e1 = (if falsy (environ w ''BINANCE_API_TIMEOUT'')
                then (environ w)(''BINANCE_API_TIMEOUT'' \<mapsto> ''30'') else environ w)
      in if falsy (e1 ''BINANCE_MAX_RETRIES'') then e1(''BINANCE_MAX_RETRIES'' \<mapsto> ''3'') else e1)"
proof -
  let ?set1 = "setenv_if_unset ''BINANCE_API_TIMEOUT'' ''30''"
  let ?set2 = "setenv_if_unset ''BINANCE_MAX_RETRIES'' ''3''"
  let ?body = "andthen ?set1 (andthen ?set2 (logger h DEBUG Binance_timeouts_optimized))"
  let ?cs = "[(Except_Exception, \<lambda>e. logger h DEBUG (Failed_binance_timeouts (str_of e)))]"
  let ?w0 = "snd (enter Fix_binance_client_timeouts w)"
  have handlers: "environ (snd (dispatch ?cs e s)) = environ s" for e s
    by (simp add: logger_keeps)
  have body: "environ (snd (?body s)) = environ (snd (?set2 (snd (?set1 s))))" for s
    by (simp add: andthen_returns setenv_if_unset_returns logger_keeps)
  have "environ (snd (try_except ?body ?cs s)) = environ (snd (?body s))" for s
    by (cases "?body s"; cases "fst (?body s)") (auto simp: try_except_def logger_keeps)
  then have "environ (snd (fix_binance_client_timeouts h w)) = environ (snd (?set2 (snd (?set1 ?w0))))"
    unfolding fix_binance_client_timeouts_def
    by (simp add: andthen_returns enter_returns body)
  then show ?thesis
    by (simp add: setenv_if_unset_def setenv_def getenv_def enter_def Let_def)
qed

lemma falsy_iff: "falsy v \<longleftrightarrow> v = None \<or> v = Some []"
  by (cases v) auto

lemma binance_timeout_value:
  "environ (snd (fix_binance_client_timeouts h w)) ''BINANCE_API_TIMEOUT'' =
     (if environ w ''BINANCE_API_TIMEOUT'' = None \<or> environ w ''BINANCE_API_TIMEOUT'' = Some []
      then Some ''30'' else environ w ''BINANCE_API_TIMEOUT'')"
  by (simp add: fix_binance_client_timeouts_environ Let_def falsy_iff)

lemma binance_retries_value:
  "environ (snd (fix_binance_client_timeouts h w)) ''BINANCE_MAX_RETRIES'' =
     (if environ w ''BINANCE_MAX_RETRIES'' = None \<or> environ w ''BINANCE_MAX_RETRIES'' = Some []
      then Some ''3'' else environ w ''BINANCE_MAX_RETRIES'')"
  by (simp add: fix_binance_client_timeouts_environ Let_def falsy_iff)

lemma binance_other_value:
  "k \<noteq> ''BINANCE_API_TIMEOUT'' \<Longrightarrow> k \<noteq> ''BINANCE_MAX_RETRIES'' \<Longrightarrow>
   environ (snd (fix_binance_client_timeouts h w)) k = environ w k"
  by (simp add: fix_binance_client_timeouts_environ Let_def)

lemma binance_twice:
  "environ (snd (fix_binance_client_timeouts h (snd (fix_binance_client_timeouts h w)))) =
   environ (snd (fix_binance_client_timeouts h w))"
proof (rule ext)
  fix k
  let ?once = "snd (fix_binance_client_timeouts h w)"
  consider "k = ''BINANCE_API_TIMEOUT''" | "k = ''BINANCE_MAX_RETRIES''"
    | "k \<noteq> ''BINANCE_API_TIMEOUT''" "k \<noteq> ''BINANCE_MAX_RETRIES''" by blast
  then show "environ (snd (fix_binance_client_timeouts h ?once)) k = environ ?once k"
  proof cases
    case 1
    then show ?thesis by (simp add: binance_timeout_value)
  next
    case 2
    then show ?thesis by (simp add: binance_retries_value)
  next
    case 3
    then show ?thesis by (simp add: binance_other_value)
  qed
qed

subsection \<open>The event-loop policy off Windows\<close>

lemma fix_asyncio_warnings_not_windows:
  "platform_system h \<noteq> ''Windows'' \<Longrightarrow>
   fix_asyncio_warnings h w =
     (None, w\<lparr>routine_calls := routine_calls w @ [Fix_asyncio_warnings]\<rparr>)"
  by (simp add: fix_asyncio_warnings_def andthen_def enter_def try_except_def returns_def)

subsection \<open>The status report, whatever the routines do\<close>

lemma try_fix_eq:
  "try_fix p k (d, w) = (None, ((if fst (p w) = None then d(k \<mapsto> True) else d), snd (p w)))"
  by (cases "p w"; cases "fst (p w)")
    (auto simp: try_fix_def try_except_def andthen_def on_world_def set_fix_def returns_def)

lemma get_fix_status_body_eq:
  "get_fix_status_body h (d, w) =
    (let r1 = fix_pandas_warnings h w;
         d1 = (if fst r1 = None then d(''pandas_warnings'' \<mapsto> True) else d);
         r2 = fix_asyncio_warnings h (snd r1);
         d2 = (if fst r2 = None then d1(''asyncio_warnings'' \<mapsto> True) else d1);
         r3 = fix_binance_client_timeouts h (snd r2);
         d3 = (if fst r3 = None then d2(''binance_timeouts'' \<mapsto> True) else d2);
         r4 = fix_signal_calculations h (snd r3);
         d4 = (if fst r4 = None then d3(''signal_calculations'' \<mapsto> True) else d3);
         r5 = optimize_memory_usage h (snd r4);
         d5 = (if fst r5 = None then d4(''memory_optimization'' \<mapsto> True) else d4)
     in (None, (d5, snd r5)))"
  unfolding get_fix_status_body_def Let_def
  by (simp only: andthen_returns try_fix_eq fst_conv snd_conv)

lemma get_fix_status_gen:
  "get_fix_status h w =
    (let r1 = fix_pandas_warnings h w;
         d1 = (if fst r1 = None then initial_fixes(''pandas_warnings'' \<mapsto> True) else initial_fixes);
         r2 = fix_asyncio_warnings h (snd r1);
         d2 = (if fst r2 = None then d1(''asyncio_warnings'' \<mapsto> True) else d1);
         r3 = fix_binance_client_timeouts h (snd r2);
         d3 = (if fst r3 = None then d2(''binance_timeouts'' \<mapsto> True) else d2);
         r4 = fix_signal_calculations h (snd r3);
         d4 = (if fst r4 = None then d3(''signal_calculations'' \<mapsto> True) else d3);
         r5 = optimize_memory_usage h (snd r4);
         d5 = (if fst r5 = None then d4(''memory_optimization'' \<mapsto> True) else d4)
     in (Inr d5, snd r5))"
  unfolding get_fix_status_def get_fix_status_body_eq Let_def by simp

lemma dom_initial_fixes:
  "dom initial_fixes = {''pandas_warnings'', ''asyncio_warnings'', ''binance_timeouts'',
              ''signal_calculations'', ''memory_optimization''}"
  by (auto simp: initial_fixes_def split: if_splits)

lemma dom_mark: "k \<in> dom d \<Longrightarrow> dom (if c then d(k \<mapsto> v) else d) = dom d"
  by auto

lemma get_fix_status_dom:
  "\<exists>d w'. get_fix_status h w = (Inr d, w') \<and>
     dom d = {''pandas_warnings'', ''asyncio_warnings'', ''binance_timeouts'',
              ''signal_calculations'', ''memory_optimization''}"
  unfolding get_fix_status_gen Let_def
  by (simp add: dom_mark dom_initial_fixes)

lemma mark_other: "k' \<noteq> k \<Longrightarrow> (if c then d(k \<mapsto> v) else d) k' = d k'"
  by simp

lemma pandas_flag:
  "\<exists>d w'. get_fix_status h w = (Inr d, w') \<and>
     d ''pandas_warnings'' = Some (fst (fix_pandas_warnings h w) = None)"
  unfolding get_fix_status_gen Let_def
  by (simp add: mark_other) (simp add: initial_fixes_def)

subsection \<open>When the dispatcher raises\<close>

lemma apply_fixes_raises_only:
  assumes "fst (apply_fixes h w) = Some e"
  shows "\<exists>m. log_raises h WARNING (Error_applying_fixes m) = Some e"
proof -
  let ?body = "andthen (fix_pandas_warnings h)
       (andthen (fix_asyncio_warnings h)
       (andthen (fix_binance_client_timeouts h)
       (andthen (fix_signal_calculations h)
       (andthen (optimize_memory_usage h)
                (logger h INFO All_fixes_applied)))))"
  obtain r s where b: "?body w = (r, s)" by (cases "?body w")
  show ?thesis
  proof (cases r)
    case None
    then have "apply_fixes h w = (None, s)"
      using b by (simp add: apply_fixes_def try_except_def)
    then show ?thesis using assms by simp
  next
    case (Some x)
    then have "apply_fixes h w = logger h WARNING (Error_applying_fixes (str_of x)) s"
      using b by (simp add: apply_fixes_def try_except_def)
    then have "log_raises h WARNING (Error_applying_fixes (str_of x)) = Some e"
      using assms by (simp add: logger_def split: option.splits)
    then show ?thesis by blast
  qed
qed

lemma apply_fixes_returns_if_warning_returns:
  assumes "\<And>m. log_raises h WARNING (Error_applying_fixes m) = None"
  shows "fst (apply_fixes h w) = None"
proof (cases "fst (apply_fixes h w)")
  case None
  then show ?thesis .
next
  case (Some e)
  then obtain m where "log_raises h WARNING (Error_applying_fixes m) = Some e"
    using apply_fixes_raises_only by blast
  then show ?thesis using assms [of m] by simp
qed

subsection \<open>When the logger returns\<close>

lemma logger_quiet:
  assumes "\<And>l m. log_raises h l m = None"
  shows "logger h l m w = (None, w\<lparr>log_records := log_records w @ [(l, m)]\<rparr>)"
  by (simp add: logger_def assms)

lemmas quiet_defs = returns_def andthen_def try_except_def lib_call_def enter_def

lemma routines_return:
  assumes "\<And>l m. log_raises h l m = None"
  shows "fst (fix_pandas_warnings h w) = None"
    and "fst (fix_asyncio_warnings h w) = None"
    and "fst (fix_binance_client_timeouts h w) = None"
    and "fst (fix_signal_calculations h w) = None"
    and "fst (optimize_memory_usage h w) = None"
proof -
  note q = logger_quiet [of h, OF assms]
  show "fst (fix_pandas_warnings h w) = None"
    by (auto simp: fix_pandas_warnings_def quiet_defs q split: option.splits exn.splits prod.splits)
  show "fst (fix_asyncio_warnings h w) = None"
    by (auto simp: fix_asyncio_warnings_def quiet_defs q split: option.splits exn.splits prod.splits)
  show "fst (fix_binance_client_timeouts h w) = None"
    by (auto simp: fix_binance_client_timeouts_def setenv_if_unset_def quiet_defs q
        split: option.splits exn.splits prod.splits)
  show "fst (fix_signal_calculations h w) = None"
    by (auto simp: fix_signal_calculations_def quiet_defs q split: option.splits exn.splits prod.splits)
  show "fst (optimize_memory_usage h w) = None"
    by (auto simp: optimize_memory_usage_def quiet_defs q split: option.splits exn.splits prod.splits)
qed

lemma apply_fixes_eq:
  assumes "\<And>l m. log_raises h l m = None"
  shows "apply_fixes h w =
     logger h INFO All_fixes_applied
       (snd (optimize_memory_usage h
       (snd (fix_signal_calculations h
       (snd (fix_binance_client_timeouts h
       (snd (fix_asyncio_warnings h
       (snd (fix_pandas_warnings h w))))))))))"
proof -
  let ?body = "andthen (fix_pandas_warnings h)
       (andthen (fix_asyncio_warnings h)
       (andthen (fix_binance_client_timeouts h)
       (andthen (fix_signal_calculations h)
       (andthen (optimize_memory_usage h)
                (logger h INFO All_fixes_applied)))))"
  have b: "?body w = logger h INFO All_fixes_applied
       (snd (optimize_memory_usage h
       (snd (fix_signal_calculations h
       (snd (fix_binance_client_timeouts h
       (snd (fix_asyncio_warnings h
       (snd (fix_pandas_warnings h w))))))))))"
    by (simp add: andthen_returns routines_return [OF assms])
  have "fst (?body w) = None" unfolding b by (simp add: logger_quiet [of h, OF assms])
  then show ?thesis unfolding apply_fixes_def b[symmetric] by (rule try_except_returns)
qed

lemma get_fix_status_eq:
  assumes "\<And>l m. log_raises h l m = None"
  shows "get_fix_status h w =
     (Inr [''pandas_warnings'' \<mapsto> True, ''asyncio_warnings'' \<mapsto> True,
           ''binance_timeouts'' \<mapsto> True, ''signal_calculations'' \<mapsto> True,
           ''memory_optimization'' \<mapsto> True],
       snd (optimize_memory_usage h
       (snd (fix_signal_calculations h
       (snd (fix_binance_client_timeouts h
       (snd (fix_asyncio_warnings h
       (snd (fix_pandas_warnings h w))))))))))"
proof -
  have m: "initial_fixes(''pandas_warnings'' \<mapsto> True, ''asyncio_warnings'' \<mapsto> True,
         ''binance_timeouts'' \<mapsto> True, ''signal_calculations'' \<mapsto> True,
         ''memory_optimization'' \<mapsto> True) =
     [''pandas_warnings'' \<mapsto> True, ''asyncio_warnings'' \<mapsto> True,
      ''binance_timeouts'' \<mapsto> True, ''signal_calculations'' \<mapsto> True,
      ''memory_optimization'' \<mapsto> True]"
    by (rule ext) (simp add: initial_fixes_def)
  show ?thesis
    unfolding get_fix_status_gen Let_def
    by (simp only: routines_return [OF assms] simp_thms if_True m)
qed

lemma log_kept:
  assumes "\<And>l m. log_raises h l m = None"
  shows "set (log_records w) \<subseteq> set (log_records (snd (fix_pandas_warnings h w)))"
    and "set (log_records w) \<subseteq> set (log_records (snd (fix_asyncio_warnings h w)))"
    and "set (log_records w) \<subseteq> set (log_records (snd (fix_binance_client_timeouts h w)))"
    and "set (log_records w) \<subseteq> set (log_records (snd (fix_signal_calculations h w)))"
    and "set (log_records w) \<subseteq> set (log_records (snd (optimize_memory_usage h w)))"
proof -
  note q = logger_quiet [of h, OF assms]
  show "set (log_records w) \<subseteq> set (log_records (snd (fix_pandas_warnings h w)))"
    by (auto simp: fix_pandas_warnings_def quiet_defs q effect_defs
        split: option.splits exn.splits prod.splits)
  show "set (log_records w) \<subseteq> set (log_records (snd (fix_asyncio_warnings h w)))"
    by (auto simp: fix_asyncio_warnings_def quiet_defs q effect_defs
        split: option.splits exn.splits prod.splits)
  show "set (log_records w) \<subseteq> set (log_records (snd (fix_binance_client_timeouts h w)))"
    by (auto simp: fix_binance_client_timeouts_def setenv_if_unset_def quiet_defs q effect_defs
        split: option.splits exn.splits prod.splits)
  show "set (log_records w) \<subseteq> set (log_records (snd (fix_signal_calculations h w)))"
    by (auto simp: fix_signal_calculations_def quiet_defs q effect_defs
        split: option.splits exn.splits prod.splits)
  show "set (log_records w) \<subseteq> set (log_records (snd (optimize_memory_usage h w)))"
    by (auto simp: optimize_memory_usage_def quiet_defs q effect_defs
        split: option.splits exn.splits prod.splits)
qed

lemma pandas_failure_logged:
  assumes "\<And>l m. log_raises h l m = None"
    and "owner c = Fix_pandas_warnings" "reached h c" "raises h c = Some e"
  shows "(DEBUG, failure_record c e) \<in> set (log_records (snd (fix_pandas_warnings h w)))"
  using assms(2-4)
  by (cases c; cases e)
    (auto simp: owner_def fix_pandas_warnings_def quiet_defs logger_quiet [of h, OF assms(1)])

lemma asyncio_failure_logged:
  assumes "\<And>l m. log_raises h l m = None"
    and "owner c = Fix_asyncio_warnings" "reached h c" "raises h c = Some e"
  shows "(DEBUG, failure_record c e) \<in> set (log_records (snd (fix_asyncio_warnings h w)))"
  using assms(2-4)
  by (cases c; cases e)
    (auto simp: owner_def fix_asyncio_warnings_def quiet_defs logger_quiet [of h, OF assms(1)])

lemma signal_failure_logged:
  assumes "\<And>l m. log_raises h l m = None"
    and "owner c = Fix_signal_calculations" "reached h c" "raises h c = Some e"
  shows "(DEBUG, failure_record c e) \<in> set (log_records (snd (fix_signal_calculations h w)))"
  using assms(2-4)
  by (cases c; cases e)
    (auto simp: owner_def fix_signal_calculations_def quiet_defs logger_quiet [of h, OF assms(1)])

lemma memory_failure_logged:
  assumes "\<And>l m. log_raises h l m = None"
    and "owner c = Optimize_memory_usage" "reached h c" "raises h c = Some e"
  shows "(DEBUG, failure_record c e) \<in> set (log_records (snd (optimize_memory_usage h w)))"
  using assms(2-4)
  by (cases c; cases e)
    (auto simp: owner_def optimize_memory_usage_def quiet_defs logger_quiet [of h, OF assms(1)])

lemma failure_logged:
  assumes q: "\<And>l m. log_raises h l m = None"
    and rc: "reached h c" "raises h c = Some e"
  shows "(DEBUG, failure_record c e) \<in> set (log_records (snd (apply_fixes h w)))"
proof -
  let ?w1 = "snd (fix_pandas_warnings h w)"
  let ?w2 = "snd (fix_asyncio_warnings h ?w1)"
  let ?w3 = "snd (fix_binance_client_timeouts h ?w2)"
  let ?w4 = "snd (fix_signal_calculations h ?w3)"
  let ?w5 = "snd (optimize_memory_usage h ?w4)"
  let ?r = "(DEBUG, failure_record c e)"
  note k = log_kept [of h, OF q]
  have final: "set (log_records ?w5) \<subseteq> set (log_records (snd (apply_fixes h w)))"
    by (auto simp: apply_fixes_eq [OF q] logger_quiet [of h, OF q])
  consider "owner c = Fix_pandas_warnings" | "owner c = Fix_asyncio_warnings"
    | "owner c = Fix_signal_calculations" | "owner c = Optimize_memory_usage"
    by (cases c) (simp_all add: owner_def)
  then have "?r \<in> set (log_records ?w5)"
  proof cases
    case 1
    with q have "?r \<in> set (log_records ?w1)" using rc by (rule pandas_failure_logged)
    then show ?thesis using k(2) [of ?w1] k(3) [of ?w2] k(4) [of ?w3] k(5) [of ?w4] by blast
  next
    case 2
    with q have "?r \<in> set (log_records ?w2)" using rc by (rule asyncio_failure_logged)
    then show ?thesis using k(3) [of ?w2] k(4) [of ?w3] k(5) [of ?w4] by blast
  next
    case 3
    with q have "?r \<in> set (log_records ?w4)" using rc by (rule signal_failure_logged)
    then show ?thesis using k(5) [of ?w4] by blast
  next
    case 4
    with q show ?thesis using rc by (rule memory_failure_logged)
  qed
  then show ?thesis using final by blast
qed

subsection \<open>An optional library that is absent\<close>

lemma fix_pandas_warnings_absent:
  "raises h Import_pandas = Some (ImportError m) \<Longrightarrow>
   fix_pandas_warnings h w =
     logger h DEBUG Pandas_not_available
       (w\<lparr>routine_calls := routine_calls w @ [Fix_pandas_warnings]\<rparr>)"
  by (simp add: fix_pandas_warnings_def andthen_def enter_def try_except_def lib_call_def)

lemma fix_signal_calculations_absent:
  "raises h Import_numpy = Some (ImportError m) \<Longrightarrow>
   fix_signal_calculations h w =
     logger h DEBUG Numpy_not_available
       (w\<lparr>routine_calls := routine_calls w @ [Fix_signal_calculations]\<rparr>)"
  by (simp add: fix_signal_calculations_def andthen_def enter_def try_except_def lib_call_def)

lemmas filters_keeps = andthen_keeps [where f = warning_filters]
  try_except_keeps [where f = warning_filters] lib_call_keeps [where f = warning_filters]
  returns_keeps [where f = warning_filters]

lemmas policy_keeps = andthen_keeps [where f = event_loop_policy]
  try_except_keeps [where f = event_loop_policy] lib_call_keeps [where f = event_loop_policy]
  returns_keeps [where f = event_loop_policy]

lemmas errstate_keeps = andthen_keeps [where f = np_errstate]
  try_except_keeps [where f = np_errstate] lib_call_keeps [where f = np_errstate]
  returns_keeps [where f = np_errstate]

lemma fix_binance_client_timeouts_config:
  "warning_filters (snd (fix_binance_client_timeouts h w)) = warning_filters w"
  "event_loop_policy (snd (fix_binance_client_timeouts h w)) = event_loop_policy w"
  "np_errstate (snd (fix_binance_client_timeouts h w)) = np_errstate w"
  unfolding fix_binance_client_timeouts_def
    apply (intro filters_keeps; auto simp: logger_keeps setenv_if_unset_keeps enter_def)
   apply (intro policy_keeps; auto simp: logger_keeps setenv_if_unset_keeps enter_def)
  apply (intro errstate_keeps; auto simp: logger_keeps setenv_if_unset_keeps enter_def)
  done

lemma optimize_memory_usage_config:
  "warning_filters (snd (optimize_memory_usage h w)) = warning_filters w"
  "event_loop_policy (snd (optimize_memory_usage h w)) = event_loop_policy w"
  "np_errstate (snd (optimize_memory_usage h w)) = np_errstate w"
  unfolding optimize_memory_usage_def
    apply (intro filters_keeps; auto simp: logger_keeps effect_defs enter_def)
   apply (intro policy_keeps; auto simp: logger_keeps effect_defs enter_def)
  apply (intro errstate_keeps; auto simp: logger_keeps effect_defs enter_def)
  done

lemma bare_run:
  assumes "raises h Import_pandas = Some (ImportError m1)"
    and "raises h Import_numpy = Some (ImportError m2)"
    and "platform_system h \<noteq> ''Windows''"
  shows "warning_filters (snd (optimize_memory_usage h
       (snd (fix_signal_calculations h
       (snd (fix_binance_client_timeouts h
       (snd (fix_asyncio_warnings h
       (snd (fix_pandas_warnings h w)))))))))) = warning_filters w"
    and "event_loop_policy (snd (optimize_memory_usage h
       (snd (fix_signal_calculations h
       (snd (fix_binance_client_timeouts h
       (snd (fix_asyncio_warnings h
       (snd (fix_pandas_warnings h w)))))))))) = event_loop_policy w"
    and "np_errstate (snd (optimize_memory_usage h
       (snd (fix_signal_calculations h
       (snd (fix_binance_client_timeouts h
       (snd (fix_asyncio_warnings h
       (snd (fix_pandas_warnings h w)))))))))) = np_errstate w"
  using assms
  by (simp_all add: optimize_memory_usage_config fix_signal_calculations_absent
      fix_binance_client_timeouts_config fix_asyncio_warnings_not_windows
      fix_pandas_warnings_absent logger_keeps)

lemma environ_after_all:
  "environ (snd (optimize_memory_usage h
       (snd (fix_signal_calculations h
       (snd (fix_binance_client_timeouts h
       (snd (fix_asyncio_warnings h
       (snd (fix_pandas_warnings h w)))))))))) = environ (snd (fix_binance_client_timeouts h w))"
  by (simp add: optimize_memory_usage_environ fix_signal_calculations_environ
      fix_binance_client_timeouts_environ fix_asyncio_warnings_environ fix_pandas_warnings_environ)

subsection \<open>The routines that a run enters\<close>

lemma try_except_keeps_body:
  assumes "\<And>c handler e s. (c, handler) \<in> set cs \<Longrightarrow> f (snd (handler e s)) = f s"
  shows "f (snd (try_except body cs s)) = f (snd (body s))"
proof (cases "body s")
  case (Pair r s')
  have "f (snd (dispatch cs e s')) = f s'" for e
    by (rule dispatch_keeps) (rule assms)
  then show ?thesis using Pair by (cases r) (simp_all add: try_except_def)
qed

lemma andthen_calls:
  "routine_calls (snd (andthen p q s)) =
     (if fst (p s) = None then routine_calls (snd (q (snd (p s)))) else routine_calls (snd (p s)))"
  by (cases "p s"; cases "fst (p s)") (auto simp: andthen_def)

lemma apply_fixes_calls:
  "routine_calls (snd (apply_fixes h w)) =
    (let r1 = fix_pandas_warnings h w;
         r2 = fix_asyncio_warnings h (snd r1);
         r3 = fix_binance_client_timeouts h (snd r2);
         r4 = fix_signal_calculations h (snd r3)
     in routine_calls w @
        (if fst r1 \<noteq> None then [Fix_pandas_warnings]
         else if fst r2 \<noteq> None then [Fix_pandas_warnings, Fix_asyncio_warnings]
         else if fst r3 \<noteq> None then
           [Fix_pandas_warnings, Fix_asyncio_warnings, Fix_binance_client_timeouts]
         else if fst r4 \<noteq> None then
           [Fix_pandas_warnings, Fix_asyncio_warnings, Fix_binance_client_timeouts,
            Fix_signal_calculations]
         else [Fix_pandas_warnings, Fix_asyncio_warnings, Fix_binance_client_timeouts,
               Fix_signal_calculations, Optimize_memory_usage]))"
proof -
  have "routine_calls (snd (apply_fixes h w)) =
     routine_calls (snd ((andthen (fix_pandas_warnings h)
       (andthen (fix_asyncio_warnings h)
       (andthen (fix_binance_client_timeouts h)
       (andthen (fix_signal_calculations h)
       (andthen (optimize_memory_usage h)
                (logger h INFO All_fixes_applied)))))) w))"
    unfolding apply_fixes_def
    by (rule try_except_keeps_body) (auto simp: logger_keeps)
  then show ?thesis
    by (simp add: andthen_calls Let_def logger_keeps fix_pandas_warnings_calls
        fix_asyncio_warnings_calls fix_binance_client_timeouts_calls
        fix_signal_calculations_calls optimize_memory_usage_calls)
qed

lemma apply_fixes_calls_prefix:
  "\<exists>n. 1 \<le> n \<and> n \<le> 5 \<and>
     routine_calls (snd (apply_fixes h w)) =
       routine_calls w @ take n [Fix_pandas_warnings, Fix_asyncio_warnings,
         Fix_binance_client_timeouts, Fix_signal_calculations, Optimize_memory_usage]"
proof -
  let ?order = "[Fix_pandas_warnings, Fix_asyncio_warnings,
         Fix_binance_client_timeouts, Fix_signal_calculations, Optimize_memory_usage]"
  let ?r1 = "fix_pandas_warnings h w"
  let ?r2 = "fix_asyncio_warnings h (snd ?r1)"
  let ?r3 = "fix_binance_client_timeouts h (snd ?r2)"
  let ?r4 = "fix_signal_calculations h (snd ?r3)"
  let ?P = "\<lambda>n. 1 \<le> n \<and> n \<le> 5 \<and>
     routine_calls (snd (apply_fixes h w)) = routine_calls w @ take n ?order"
  consider "fst ?r1 \<noteq> None"
    | "fst ?r1 = None" "fst ?r2 \<noteq> None"
    | "fst ?r1 = None" "fst ?r2 = None" "fst ?r3 \<noteq> None"
    | "fst ?r1 = None" "fst ?r2 = None" "fst ?r3 = None" "fst ?r4 \<noteq> None"
    | "fst ?r1 = None" "fst ?r2 = None" "fst ?r3 = None" "fst ?r4 = None"
    by blast
  then show ?thesis
  proof cases
    case 1
    then have "?P 1" by (simp add: apply_fixes_calls Let_def)
    then show ?thesis by blast
  next
    case 2
    then have "?P 2" by (simp add: apply_fixes_calls Let_def)
    then show ?thesis by blast
  next
    case 3
    then have "?P 3" by (simp add: apply_fixes_calls Let_def)
    then show ?thesis by blast
  next
    case 4
    then have "?P 4" by (simp add: apply_fixes_calls Let_def)
    then show ?thesis by blast
  next
    case 5
    then have "?P 5" by (simp add: apply_fixes_calls Let_def)
    then show ?thesis by blast
  qed
qed

subsection \<open>The flags of the status report\<close>

lemma get_fix_status_flags:
  "\<exists>d w'. get_fix_status h w = (Inr d, w') \<and>
    (let r1 = fix_pandas_warnings h w;
         r2 = fix_asyncio_warnings h (snd r1);
         r3 = fix_binance_client_timeouts h (snd r2);
         r4 = fix_signal_calculations h (snd r3);
         r5 = optimize_memory_usage h (snd r4)
     in d ''pandas_warnings'' = Some (fst r1 = None) \<and>
        d ''asyncio_warnings'' = Some (fst r2 = None) \<and>
        d ''binance_timeouts'' = Some (fst r3 = None) \<and>
        d ''signal_calculations'' = Some (fst r4 = None) \<and>
        d ''memory_optimization'' = Some (fst r5 = None))"
proof -
  define r1 where "r1 = fix_pandas_warnings h w"
  define r2 where "r2 = fix_asyncio_warnings h (snd r1)"
  define r3 where "r3 = fix_binance_client_timeouts h (snd r2)"
  define r4 where "r4 = fix_signal_calculations h (snd r3)"
  define r5 where "r5 = optimize_memory_usage h (snd r4)"
  define d1 where "d1 = (if fst r1 = None then initial_fixes(''pandas_warnings'' \<mapsto> True) else initial_fixes)"
  define d2 where "d2 = (if fst r2 = None then d1(''asyncio_warnings'' \<mapsto> True) else d1)"
  define d3 where "d3 = (if fst r3 = None then d2(''binance_timeouts'' \<mapsto> True) else d2)"
  define d4 where "d4 = (if fst r4 = None then d3(''signal_calculations'' \<mapsto> True) else d3)"
  define d5 where "d5 = (if fst r5 = None then d4(''memory_optimization'' \<mapsto> True) else d4)"
  have g: "get_fix_status h w = (Inr d5, snd r5)"
    unfolding get_fix_status_gen Let_def d5_def d4_def d3_def d2_def d1_def
      r5_def r4_def r3_def r2_def r1_def ..
  have i: "initial_fixes ''pandas_warnings'' = Some False"
    "initial_fixes ''asyncio_warnings'' = Some False"
    "initial_fixes ''binance_timeouts'' = Some False"
    "initial_fixes ''signal_calculations'' = Some False"
    "initial_fixes ''memory_optimization'' = Some False"
    by (simp_all add: initial_fixes_def)
  have f1: "d5 ''pandas_warnings'' = Some (fst r1 = None)"
    by (simp add: d5_def d4_def d3_def d2_def d1_def i)
  have f2: "d5 ''asyncio_warnings'' = Some (fst r2 = None)"
    by (simp add: d5_def d4_def d3_def d2_def d1_def i)
  have f3: "d5 ''binance_timeouts'' = Some (fst r3 = None)"
    by (simp add: d5_def d4_def d3_def d2_def d1_def i)
  have f4: "d5 ''signal_calculations'' = Some (fst r4 = None)"
    by (simp add: d5_def d4_def d3_def d2_def d1_def i)
  have f5: "d5 ''memory_optimization'' = Some (fst r5 = None)"
    by (simp add: d5_def d4_def d3_def d2_def d1_def i)
  from g f1 f2 f3 f4 f5 show ?thesis
    unfolding Let_def r5_def r4_def r3_def r2_def r1_def by blast
qed

subsection \<open>A log handler that raises\<close>

lemma sink_down_facts:
  "raises sink_down_host Import_pandas = Some (ImportError ''No module named pandas'')"
  "raises sink_down_host Import_numpy = Some (ImportError ''No module named numpy'')"
  "platform_system sink_down_host \<noteq> ''Windows''"
  "log_raises sink_down_host l m = Some (OtherException ''log sink down'')"
  "raises sink_down_host Gc_collect = None"
  "raises sink_down_host Gc_set_threshold = None"
  by (simp_all add: sink_down_host_def bare_posix_host_def)

lemma sink_down_logger:
  "logger sink_down_host l m w = (Some (OtherException ''log sink down''), w)"
  by (simp add: logger_def sink_down_facts)

lemma sink_down_pandas:
  "fix_pandas_warnings sink_down_host w =
     (Some (OtherException ''log sink down''),
      w\<lparr>routine_calls := routine_calls w @ [Fix_pandas_warnings]\<rparr>)"
  by (simp add: fix_pandas_warnings_absent [OF sink_down_facts(1)] sink_down_logger)

lemma sink_down_asyncio:
  "fix_asyncio_warnings sink_down_host w =
     (None, w\<lparr>routine_calls := routine_calls w @ [Fix_asyncio_warnings]\<rparr>)"
  by (rule fix_asyncio_warnings_not_windows) (rule sink_down_facts)

lemma sink_down_binance:
  "fst (fix_binance_client_timeouts sink_down_host w) = Some (OtherException ''log sink down'')"
  by (simp add: fix_binance_client_timeouts_def andthen_def enter_def try_except_def
      setenv_if_unset_def sink_down_logger)

lemma sink_down_signal:
  "fst (fix_signal_calculations sink_down_host w) = Some (OtherException ''log sink down'')"
  by (simp add: fix_signal_calculations_absent [OF sink_down_facts(2)] sink_down_logger)

lemma sink_down_memory:
  "fst (optimize_memory_usage sink_down_host w) = Some (OtherException ''log sink down'')"
  by (simp add: optimize_memory_usage_def andthen_def enter_def try_except_def lib_call_def
      sink_down_logger sink_down_facts)

lemma sink_down_apply_fixes:
  "apply_fixes sink_down_host w =
     (Some (OtherException ''log sink down''),
      w\<lparr>routine_calls := routine_calls w @ [Fix_pandas_warnings]\<rparr>)"
  by (simp add: apply_fixes_def try_except_def andthen_raises sink_down_pandas sink_down_logger)

lemma sink_down_flags:
  "\<exists>d w'. get_fix_status sink_down_host w = (Inr d, w') \<and>
     d ''pandas_warnings'' = Some False \<and> d ''asyncio_warnings'' = Some True \<and>
     d ''binance_timeouts'' = Some False \<and> d ''signal_calculations'' = Some False \<and>
     d ''memory_optimization'' = Some False"
  using get_fix_status_flags [of sink_down_host w]
  by (simp add: Let_def sink_down_pandas sink_down_asyncio sink_down_binance sink_down_signal
      sink_down_memory)

lemma debug_down_warning:
  "log_raises debug_down_host WARNING m = None"
  by (simp add: debug_down_host_def)

lemma quiet_hosts:
  "log_raises bare_posix_host l m = None"
  "log_raises broken_windows_host l m = None"
  by (simp_all add: bare_posix_host_def broken_windows_host_def)

section \<open>The claims\<close>

subsection \<open>C1: when the dispatcher raises\<close>

text \<open>
  Claim C1 says that \<^verbatim>\<open>apply_fixes()\<close> never raises. It does when the logger does: with
  no pandas and a log handler that raises, the \<^verbatim>\<open>except ImportError\<close> clause of the first
  routine raises from its \<^verbatim>\<open>logger.debug\<close>, the handler of \<^verbatim>\<open>apply_fixes\<close> takes that
  exception, and its own \<^verbatim>\<open>logger.warning\<close> raises to the caller.
\<close>

theorem apply_fixes_raises_counterexample:
  "fst (apply_fixes sink_down_host fresh_world) = Some (OtherException ''log sink down'')"
  by (simp add: sink_down_apply_fixes)

text \<open>
  Claim C1, amended. For every host and world: \<^verbatim>\<open>apply_fixes()\<close> returns normally
  whenever its own \<^verbatim>\<open>logger.warning\<close> statement returns, and an exception that reaches
  the caller is one that this statement raised; whatever else fails in the five routines
  or in the success record is caught. When every logging statement returns, each failure
  of a library call that the run reaches has been logged by the handler that caught it.
\<close>

theorem apply_fixes_raises_only_its_warning:
  "((\<forall>m. log_raises h WARNING (Error_applying_fixes m) = None) \<longrightarrow>
      fst (apply_fixes h w) = None) \<and>
   (\<forall>e. fst (apply_fixes h w) = Some e \<longrightarrow>
      (\<exists>m. log_raises h WARNING (Error_applying_fixes m) = Some e)) \<and>
   ((\<forall>l m. log_raises h l m = None) \<longrightarrow>
      (\<forall>c e. reached h c \<and> raises h c = Some e \<longrightarrow>
         (DEBUG, failure_record c e) \<in> set (log_records (snd (apply_fixes h w)))))"
proof (intro conjI allI impI)
  assume "\<forall>m. log_raises h WARNING (Error_applying_fixes m) = None"
  then show "fst (apply_fixes h w) = None"
    by (simp add: apply_fixes_returns_if_warning_returns)
next
  fix e
  assume "fst (apply_fixes h w) = Some e"
  then show "\<exists>m. log_raises h WARNING (Error_applying_fixes m) = Some e"
    by (rule apply_fixes_raises_only)
next
  fix c e
  assume "\<forall>l m. log_raises h l m = None" and "reached h c \<and> raises h c = Some e"
  then show "(DEBUG, failure_record c e) \<in> set (log_records (snd (apply_fixes h w)))"
    by (simp add: failure_logged)
qed

text \<open>With a handler that raises on \<^verbatim>\<open>DEBUG\<close> records only, the call returns; on the Windows
  host with a broken data-frame library and a working logger, both failures are logged.\<close>

theorem apply_fixes_raises_only_its_warning_witness:
  "fst (apply_fixes debug_down_host fresh_world) = None \<and>
   (DEBUG, Failed_pandas_warnings ''numpy.dtype size changed'')
      \<in> set (log_records (snd (apply_fixes broken_windows_host fresh_world))) \<and>
   (DEBUG, Failed_signal_calculations ''bad mode'')
      \<in> set (log_records (snd (apply_fixes broken_windows_host fresh_world)))"
proof -
  note d = apply_fixes_raises_only_its_warning [of debug_down_host fresh_world]
  note t = apply_fixes_raises_only_its_warning [of broken_windows_host fresh_world]
  have q: "\<forall>l m. log_raises broken_windows_host l m = None"
    by (simp add: quiet_hosts)
  have p: "reached broken_windows_host Import_pandas \<and>
        raises broken_windows_host Import_pandas = Some (OtherException ''numpy.dtype size changed'')"
    by (simp add: broken_windows_host_def)
  have n: "reached broken_windows_host Np_seterr \<and>
        raises broken_windows_host Np_seterr = Some (OtherException ''bad mode'')"
    by (simp add: broken_windows_host_def)
  from d have "fst (apply_fixes debug_down_host fresh_world) = None"
    by (simp add: debug_down_warning)
  moreover from t q p have "(DEBUG, failure_record Import_pandas (OtherException ''numpy.dtype size changed''))
      \<in> set (log_records (snd (apply_fixes broken_windows_host fresh_world)))" by blast
  moreover from t q n have "(DEBUG, failure_record Np_seterr (OtherException ''bad mode''))
      \<in> set (log_records (snd (apply_fixes broken_windows_host fresh_world)))" by blast
  ultimately show ?thesis by simp
qed

subsection \<open>C2: the status report has exactly the five keys\<close>

text \<open>
  Claim C2. For every host and world, \<^verbatim>\<open>get_fix_status()\<close> raises nothing and returns a
  dictionary whose keys are exactly the five fix names; its values are booleans (the type
  of the dictionary). This holds whatever the library calls and the logger do.
\<close>

theorem get_fix_status_five_keys:
  "\<exists>d w'. get_fix_status h w = (Inr d, w') \<and>
     dom d = {''pandas_warnings'', ''asyncio_warnings'', ''binance_timeouts'',
              ''signal_calculations'', ''memory_optimization''}"
  by (rule get_fix_status_dom)

text \<open>On the Windows host with a broken data-frame library, and on the host whose log
  handler raises.\<close>

theorem get_fix_status_five_keys_witness:
  "(\<exists>d w'. get_fix_status broken_windows_host fresh_world = (Inr d, w') \<and>
     dom d = {''pandas_warnings'', ''asyncio_warnings'', ''binance_timeouts'',
              ''signal_calculations'', ''memory_optimization''}) \<and>
   (\<exists>d w'. get_fix_status sink_down_host fresh_world = (Inr d, w') \<and>
     dom d = {''pandas_warnings'', ''asyncio_warnings'', ''binance_timeouts'',
              ''signal_calculations'', ''memory_optimization''})"
  using get_fix_status_five_keys [of broken_windows_host fresh_world]
    get_fix_status_five_keys [of sink_down_host fresh_world]
  by simp

subsection \<open>C3: the network timeout defaults\<close>

text \<open>
  Claim C3. After \<^verbatim>\<open>fix_binance_client_timeouts()\<close>, \<^verbatim>\<open>BINANCE_API_TIMEOUT\<close> is \<^verbatim>\<open>"30"\<close>
  if it was unset or empty before and keeps its value otherwise, and \<^verbatim>\<open>BINANCE_MAX_RETRIES\<close>
  is \<^verbatim>\<open>"3"\<close> if it was unset or empty before and keeps its value otherwise, whatever the
  logger does; the routine returns normally when its \<^verbatim>\<open>logger.debug\<close> statement does.
\<close>

theorem timeout_defaults:
  "environ (snd (fix_binance_client_timeouts h w)) ''BINANCE_API_TIMEOUT'' =
     (if environ w ''BINANCE_API_TIMEOUT'' = None \<or> environ w ''BINANCE_API_TIMEOUT'' = Some ''''
      then Some ''30'' else environ w ''BINANCE_API_TIMEOUT'') \<and>
   environ (snd (fix_binance_client_timeouts h w)) ''BINANCE_MAX_RETRIES'' =
     (if environ w ''BINANCE_MAX_RETRIES'' = None \<or> environ w ''BINANCE_MAX_RETRIES'' = Some ''''
      then Some ''3'' else environ w ''BINANCE_MAX_RETRIES'') \<and>
   (log_raises h DEBUG Binance_timeouts_optimized = None \<longrightarrow>
      fst (fix_binance_client_timeouts h w) = None)"
proof (intro conjI impI)
  assume "log_raises h DEBUG Binance_timeouts_optimized = None"
  then show "fst (fix_binance_client_timeouts h w) = None"
    by (simp add: fix_binance_client_timeouts_def andthen_def enter_def try_except_def
        setenv_if_unset_def logger_def)
qed (simp_all only: binance_timeout_value binance_retries_value)

text \<open>A preset timeout of 99 stays and the retries get their default; an empty retry
  count is replaced; the log handler that raises changes none of it.\<close>

theorem timeout_defaults_witness:
  "environ (snd (fix_binance_client_timeouts bare_posix_host
      (fresh_world\<lparr>environ := [''BINANCE_API_TIMEOUT'' \<mapsto> ''99'']\<rparr>))) ''BINANCE_API_TIMEOUT'' = Some ''99''
   \<and> environ (snd (fix_binance_client_timeouts bare_posix_host
      (fresh_world\<lparr>environ := [''BINANCE_API_TIMEOUT'' \<mapsto> ''99'']\<rparr>))) ''BINANCE_MAX_RETRIES'' = Some ''3''
   \<and> fst (fix_binance_client_timeouts bare_posix_host
      (fresh_world\<lparr>environ := [''BINANCE_API_TIMEOUT'' \<mapsto> ''99'']\<rparr>)) = None
   \<and> environ (snd (fix_binance_client_timeouts sink_down_host
      (fresh_world\<lparr>environ := [''BINANCE_MAX_RETRIES'' \<mapsto> '''']\<rparr>))) ''BINANCE_API_TIMEOUT'' = Some ''30''
   \<and> environ (snd (fix_binance_client_timeouts sink_down_host
      (fresh_world\<lparr>environ := [''BINANCE_MAX_RETRIES'' \<mapsto> '''']\<rparr>))) ''BINANCE_MAX_RETRIES'' = Some ''3''"
  using timeout_defaults [of bare_posix_host "fresh_world\<lparr>environ := [''BINANCE_API_TIMEOUT'' \<mapsto> ''99'']\<rparr>"]
    timeout_defaults [of sink_down_host "fresh_world\<lparr>environ := [''BINANCE_MAX_RETRIES'' \<mapsto> '''']\<rparr>"]
  by (simp add: fresh_world_def quiet_hosts)

subsection \<open>C6: the timeout defaults are idempotent\<close>

text \<open>
  Claim C6. Calling \<^verbatim>\<open>fix_binance_client_timeouts()\<close> twice in succession leaves
  \<^verbatim>\<open>BINANCE_API_TIMEOUT\<close> and \<^verbatim>\<open>BINANCE_MAX_RETRIES\<close> (and the whole of \<^verbatim>\<open>os.environ\<close>)
  as calling it once does, from every starting environment.
\<close>

theorem timeout_defaults_idempotent:
  "environ (snd (fix_binance_client_timeouts h (snd (fix_binance_client_timeouts h w))))
      ''BINANCE_API_TIMEOUT'' =
   environ (snd (fix_binance_client_timeouts h w)) ''BINANCE_API_TIMEOUT'' \<and>
   environ (snd (fix_binance_client_timeouts h (snd (fix_binance_client_timeouts h w))))
      ''BINANCE_MAX_RETRIES'' =
   environ (snd (fix_binance_client_timeouts h w)) ''BINANCE_MAX_RETRIES'' \<and>
   environ (snd (fix_binance_client_timeouts h (snd (fix_binance_client_timeouts h w)))) =
   environ (snd (fix_binance_client_timeouts h w))"
  by (simp only: binance_twice simp_thms)

text \<open>Starting from a preset timeout of 99.\<close>

theorem timeout_defaults_idempotent_witness:
  "environ (snd (fix_binance_client_timeouts bare_posix_host
      (snd (fix_binance_client_timeouts bare_posix_host
        (fresh_world\<lparr>environ := [''BINANCE_API_TIMEOUT'' \<mapsto> ''99'']\<rparr>))))) =
   [''BINANCE_API_TIMEOUT'' \<mapsto> ''99'', ''BINANCE_MAX_RETRIES'' \<mapsto> ''3'']"
proof -
  have "environ (snd (fix_binance_client_timeouts bare_posix_host
      (fresh_world\<lparr>environ := [''BINANCE_API_TIMEOUT'' \<mapsto> ''99'']\<rparr>))) =
    [''BINANCE_API_TIMEOUT'' \<mapsto> ''99'', ''BINANCE_MAX_RETRIES'' \<mapsto> ''3'']"
    by (simp add: fix_binance_client_timeouts_environ fresh_world_def)
  then show ?thesis
    using timeout_defaults_idempotent [of bare_posix_host
        "fresh_world\<lparr>environ := [''BINANCE_API_TIMEOUT'' \<mapsto> ''99'']\<rparr>"]
    by simp
qed

subsection \<open>C10: the timeout defaults write no other variable\<close>

text \<open>
  Claim C10. Every environment variable other than \<^verbatim>\<open>BINANCE_API_TIMEOUT\<close> and
  \<^verbatim>\<open>BINANCE_MAX_RETRIES\<close> has the same value (or is as absent) after
  \<^verbatim>\<open>fix_binance_client_timeouts()\<close> as before, from every starting environment.
\<close>

theorem timeout_defaults_frame:
  "k \<noteq> ''BINANCE_API_TIMEOUT'' \<Longrightarrow> k \<noteq> ''BINANCE_MAX_RETRIES'' \<Longrightarrow>
   environ (snd (fix_binance_client_timeouts h w)) k = environ w k"
  by (rule binance_other_value)

text \<open>\<^verbatim>\<open>PATH\<close> keeps its value, and a variable that is absent stays absent.\<close>

theorem timeout_defaults_frame_witness:
  "environ (snd (fix_binance_client_timeouts bare_posix_host
      (fresh_world\<lparr>environ := [''PATH'' \<mapsto> ''/usr/bin'']\<rparr>))) ''PATH'' = Some ''/usr/bin''
   \<and> environ (snd (fix_binance_client_timeouts bare_posix_host
      (fresh_world\<lparr>environ := [''PATH'' \<mapsto> ''/usr/bin'']\<rparr>))) ''BINANCE_TIMEOUT'' = None"
  using timeout_defaults_frame [of "''PATH''" bare_posix_host
      "fresh_world\<lparr>environ := [''PATH'' \<mapsto> ''/usr/bin'']\<rparr>"]
    timeout_defaults_frame [of "''BINANCE_TIMEOUT''" bare_posix_host
      "fresh_world\<lparr>environ := [''PATH'' \<mapsto> ''/usr/bin'']\<rparr>"]
  by (simp add: fresh_world_def)

subsection \<open>C7: no event-loop policy off Windows\<close>

text \<open>
  Claim C7. When \<^verbatim>\<open>platform.system()\<close> is not \<^verbatim>\<open>"Windows"\<close>, \<^verbatim>\<open>fix_asyncio_warnings()\<close>
  returns normally and leaves the event-loop policy as it was; indeed it leaves the whole
  world as it was, but for the ghost trace of the routines entered.
\<close>

theorem asyncio_noop_off_windows:
  "platform_system h \<noteq> ''Windows'' \<Longrightarrow>
   fst (fix_asyncio_warnings h w) = None \<and>
   event_loop_policy (snd (fix_asyncio_warnings h w)) = event_loop_policy w \<and>
   snd (fix_asyncio_warnings h w) = w\<lparr>routine_calls := routine_calls w @ [Fix_asyncio_warnings]\<rparr>"
  by (simp add: fix_asyncio_warnings_not_windows)

text \<open>On the POSIX host, a policy installed earlier stays.\<close>

theorem asyncio_noop_off_windows_witness:
  "fst (fix_asyncio_warnings bare_posix_host
          (fresh_world\<lparr>event_loop_policy := Some (Other_policy ''uvloop'')\<rparr>)) = None \<and>
   event_loop_policy (snd (fix_asyncio_warnings bare_posix_host
          (fresh_world\<lparr>event_loop_policy := Some (Other_policy ''uvloop'')\<rparr>)))
     = Some (Other_policy ''uvloop'')"
  using asyncio_noop_off_windows [of bare_posix_host
      "fresh_world\<lparr>event_loop_policy := Some (Other_policy ''uvloop'')\<rparr>"]
  by (simp add: bare_posix_host_def)


subsection \<open>C8: the order of the five routines\<close>

text \<open>
  Claim C8 says that one call of \<^verbatim>\<open>apply_fixes()\<close> invokes all five routines. It does not
  when a routine raises: with no pandas and a log handler that raises, the first routine
  raises from its handler and the other four are never entered.
\<close>

theorem apply_fixes_order_counterexample:
  "routine_calls (snd (apply_fixes sink_down_host fresh_world)) = [Fix_pandas_warnings]"
  by (simp add: sink_down_apply_fixes fresh_world_def)

text \<open>
  Claim C8, amended. One call of \<^verbatim>\<open>apply_fixes()\<close> enters the routines in the fixed order
  warning suppression, event-loop policy, network timeout defaults, numeric error mode,
  garbage-collector tuning, each at most once, and stops after the first one that raises.
  When every logging statement returns, no routine raises: all five are entered, each
  exactly once, and the call does what the five routines do one after the other in that
  order, followed by the success record.
\<close>

theorem apply_fixes_order:
  "routine_calls (snd (apply_fixes h w)) =
    (let r1 = fix_pandas_warnings h w;
         r2 = fix_asyncio_warnings h (snd r1);
         r3 = fix_binance_client_timeouts h (snd r2);
         r4 = fix_signal_calculations h (snd r3)
     in routine_calls w @
        (if fst r1 \<noteq> None then [Fix_pandas_warnings]
         else if fst r2 \<noteq> None then [Fix_pandas_warnings, Fix_asyncio_warnings]
         else if fst r3 \<noteq> None then
           [Fix_pandas_warnings, Fix_asyncio_warnings, Fix_binance_client_timeouts]
         else if fst r4 \<noteq> None then
           [Fix_pandas_warnings, Fix_asyncio_warnings, Fix_binance_client_timeouts,
            Fix_signal_calculations]
         else [Fix_pandas_warnings, Fix_asyncio_warnings, Fix_binance_client_timeouts,
               Fix_signal_calculations, Optimize_memory_usage])) \<and>
   ((\<forall>l m. log_raises h l m = None) \<longrightarrow>
      apply_fixes h w =
        logger h INFO All_fixes_applied
          (snd (optimize_memory_usage h
          (snd (fix_signal_calculations h
          (snd (fix_binance_client_timeouts h
          (snd (fix_asyncio_warnings h
          (snd (fix_pandas_warnings h w))))))))))
      \<and> routine_calls (snd (apply_fixes h w)) =
          routine_calls w @ [Fix_pandas_warnings, Fix_asyncio_warnings,
            Fix_binance_client_timeouts, Fix_signal_calculations, Optimize_memory_usage])"
proof (intro conjI impI)
  show "routine_calls (snd (apply_fixes h w)) =
    (let r1 = fix_pandas_warnings h w;
         r2 = fix_asyncio_warnings h (snd r1);
         r3 = fix_binance_client_timeouts h (snd r2);
         r4 = fix_signal_calculations h (snd r3)
     in routine_calls w @
        (if fst r1 \<noteq> None then [Fix_pandas_warnings]
         else if fst r2 \<noteq> None then [Fix_pandas_warnings, Fix_asyncio_warnings]
         else if fst r3 \<noteq> None then
           [Fix_pandas_warnings, Fix_asyncio_warnings, Fix_binance_client_timeouts]
         else if fst r4 \<noteq> None then
           [Fix_pandas_warnings, Fix_asyncio_warnings, Fix_binance_client_timeouts,
            Fix_signal_calculations]
         else [Fix_pandas_warnings, Fix_asyncio_warnings, Fix_binance_client_timeouts,
               Fix_signal_calculations, Optimize_memory_usage]))"
    by (rule apply_fixes_calls)
next
  assume q: "\<forall>l m. log_raises h l m = None"
  then show "apply_fixes h w =
        logger h INFO All_fixes_applied
          (snd (optimize_memory_usage h
          (snd (fix_signal_calculations h
          (snd (fix_binance_client_timeouts h
          (snd (fix_asyncio_warnings h
          (snd (fix_pandas_warnings h w))))))))))"
    by (simp add: apply_fixes_eq)
  from q show "routine_calls (snd (apply_fixes h w)) =
          routine_calls w @ [Fix_pandas_warnings, Fix_asyncio_warnings,
            Fix_binance_client_timeouts, Fix_signal_calculations, Optimize_memory_usage]"
    by (simp add: apply_fixes_calls Let_def routines_return)
qed

text \<open>On the Windows host with a broken data-frame library and a working logger, from an
  empty trace: all five, in order.\<close>

theorem apply_fixes_order_witness:
  "routine_calls (snd (apply_fixes broken_windows_host fresh_world)) =
     [Fix_pandas_warnings, Fix_asyncio_warnings, Fix_binance_client_timeouts,
      Fix_signal_calculations, Optimize_memory_usage]"
proof -
  have q: "\<forall>l m. log_raises broken_windows_host l m = None"
    by (simp add: quiet_hosts)
  from apply_fixes_order [of broken_windows_host fresh_world] q
  have "routine_calls (snd (apply_fixes broken_windows_host fresh_world)) =
          routine_calls fresh_world @ [Fix_pandas_warnings, Fix_asyncio_warnings,
            Fix_binance_client_timeouts, Fix_signal_calculations, Optimize_memory_usage]"
    by blast
  then show ?thesis by (simp add: fresh_world_def)
qed

subsection \<open>C9: when a status flag is false\<close>





subsection \<open>C5: an absent data-frame library\<close>

text \<open>
  Claim C5 says that with pandas absent the routine completes without raising and its
  flag is true. On that path the routine's only statement is the \<^verbatim>\<open>logger.debug\<close> of its
  \<^verbatim>\<open>except ImportError\<close> clause; when the log handler raises there, the exception leaves
  the routine and \<^verbatim>\<open>get_fix_status()\<close> reports \<^verbatim>\<open>pandas_warnings\<close> as false.
\<close>

theorem pandas_absent_counterexample:
  "raises sink_down_host Import_pandas = Some (ImportError ''No module named pandas'') \<and>
   fst (fix_pandas_warnings sink_down_host fresh_world) = Some (OtherException ''log sink down'') \<and>
   (case fst (get_fix_status sink_down_host fresh_world) of
      Inl e \<Rightarrow> None | Inr d \<Rightarrow> d ''pandas_warnings'') = Some False"
  using sink_down_flags [of fresh_world]
  by (auto simp: sink_down_facts sink_down_pandas)

text \<open>
  Claim C5, amended. When the import of pandas raises \<^verbatim>\<open>ImportError\<close>,
  \<^verbatim>\<open>fix_pandas_warnings()\<close> registers no warning filter, and it raises exactly what its
  statement \<^verbatim>\<open>logger.debug("Pandas not available ...")\<close> raises: it returns normally, and
  the flag \<^verbatim>\<open>pandas_warnings\<close> that \<^verbatim>\<open>get_fix_status()\<close> returns is true, exactly when
  that statement returns.
\<close>

theorem pandas_absent_noop:
  "raises h Import_pandas = Some (ImportError m) \<Longrightarrow>
   warning_filters (snd (fix_pandas_warnings h w)) = warning_filters w \<and>
   fst (fix_pandas_warnings h w) = log_raises h DEBUG Pandas_not_available \<and>
   (\<exists>d w'. get_fix_status h w = (Inr d, w') \<and>
      d ''pandas_warnings'' = Some (log_raises h DEBUG Pandas_not_available = None))"
proof -
  assume a: "raises h Import_pandas = Some (ImportError m)"
  have f: "fst (fix_pandas_warnings h w) = log_raises h DEBUG Pandas_not_available"
    by (simp add: fix_pandas_warnings_absent [OF a] logger_def split: option.splits)
  have "warning_filters (snd (fix_pandas_warnings h w)) = warning_filters w"
    by (simp add: fix_pandas_warnings_absent [OF a] logger_keeps)
  moreover have "\<exists>d w'. get_fix_status h w = (Inr d, w') \<and>
      d ''pandas_warnings'' = Some (log_raises h DEBUG Pandas_not_available = None)"
    using pandas_flag [of h w] by (simp add: f)
  ultimately show ?thesis using f by simp
qed

text \<open>On the POSIX host without the optional libraries, whose logger returns: the routine
  returns, no filter is registered and the flag is true.\<close>

theorem pandas_absent_noop_witness:
  "fst (fix_pandas_warnings bare_posix_host fresh_world) = None \<and>
   warning_filters (snd (fix_pandas_warnings bare_posix_host fresh_world)) = [] \<and>
   (\<exists>d w'. get_fix_status bare_posix_host fresh_world = (Inr d, w') \<and>
      d ''pandas_warnings'' = Some True)"
  using pandas_absent_noop [of bare_posix_host "''No module named pandas''" fresh_world]
  by (simp add: bare_posix_host_def fresh_world_def)

subsection \<open>C4: the bare scenario\<close>

text \<open>
  Claim C4 gives a scenario: the two variables unset, both optional libraries absent, a
  platform other than Windows. In that scenario, with a log handler that raises,
  \<^verbatim>\<open>apply_fixes()\<close> raises after the first routine and leaves both variables unset, and
  the \<^verbatim>\<open>get_fix_status()\<close> that follows returns \<^verbatim>\<open>pandas_warnings\<close> as false.
\<close>

theorem bare_scenario_counterexample:
  "environ fresh_world ''BINANCE_API_TIMEOUT'' = None \<and>
   environ fresh_world ''BINANCE_MAX_RETRIES'' = None \<and>
   raises sink_down_host Import_pandas = Some (ImportError ''No module named pandas'') \<and>
   raises sink_down_host Import_numpy = Some (ImportError ''No module named numpy'') \<and>
   platform_system sink_down_host \<noteq> ''Windows'' \<and>
   fst (apply_fixes sink_down_host fresh_world) = Some (OtherException ''log sink down'') \<and>
   environ (snd (apply_fixes sink_down_host fresh_world)) ''BINANCE_API_TIMEOUT'' = None \<and>
   environ (snd (apply_fixes sink_down_host fresh_world)) ''BINANCE_MAX_RETRIES'' = None \<and>
   (case fst (get_fix_status sink_down_host (snd (apply_fixes sink_down_host fresh_world))) of
      Inl e \<Rightarrow> None | Inr d \<Rightarrow> d ''pandas_warnings'') = Some False"
  using sink_down_flags [of "snd (apply_fixes sink_down_host fresh_world)"]
  by (auto simp: sink_down_facts sink_down_apply_fixes fresh_world_def)

text \<open>
  Claim C4, amended. With the two variables unset, both optional libraries absent, a
  platform other than Windows, and every logging statement returning: \<^verbatim>\<open>apply_fixes()\<close>
  returns normally and logs success last, and after it \<^verbatim>\<open>BINANCE_API_TIMEOUT\<close> is
  \<^verbatim>\<open>"30"\<close> and \<^verbatim>\<open>BINANCE_MAX_RETRIES\<close> is \<^verbatim>\<open>"3"\<close>; the \<^verbatim>\<open>get_fix_status()\<close> that follows
  returns all five flags true and leaves the two variables so. The routines went their
  no-op paths: warning filters, event-loop policy and numeric error mode are as before.
\<close>

theorem bare_posix_scenario:
  assumes "environ w ''BINANCE_API_TIMEOUT'' = None"
    and "environ w ''BINANCE_MAX_RETRIES'' = None"
    and "raises h Import_pandas = Some (ImportError m1)"
    and "raises h Import_numpy = Some (ImportError m2)"
    and "platform_system h \<noteq> ''Windows''"
    and "\<And>l m. log_raises h l m = None"
  shows "\<exists>w1 d w2.
     apply_fixes h w = (None, w1) \<and>
     last (log_records w1) = (INFO, All_fixes_applied) \<and>
     environ w1 ''BINANCE_API_TIMEOUT'' = Some ''30'' \<and>
     environ w1 ''BINANCE_MAX_RETRIES'' = Some ''3'' \<and>
     get_fix_status h w1 = (Inr d, w2) \<and>
     d = [''pandas_warnings'' \<mapsto> True, ''asyncio_warnings'' \<mapsto> True,
          ''binance_timeouts'' \<mapsto> True, ''signal_calculations'' \<mapsto> True,
          ''memory_optimization'' \<mapsto> True] \<and>
     environ w2 ''BINANCE_API_TIMEOUT'' = Some ''30'' \<and>
     environ w2 ''BINANCE_MAX_RETRIES'' = Some ''3'' \<and>
     warning_filters w2 = warning_filters w \<and>
     event_loop_policy w2 = event_loop_policy w \<and>
     np_errstate w2 = np_errstate w"
proof -
  let ?run = "\<lambda>w. snd (optimize_memory_usage h
       (snd (fix_signal_calculations h
       (snd (fix_binance_client_timeouts h
       (snd (fix_asyncio_warnings h
       (snd (fix_pandas_warnings h w)))))))))"
  let ?w1 = "snd (logger h INFO All_fixes_applied (?run w))"
  let ?w2 = "?run ?w1"
  note q = assms(6)
  have a: "apply_fixes h w = (None, ?w1)"
    by (simp add: apply_fixes_eq [OF q] logger_quiet [of h, OF q])
  have l: "last (log_records ?w1) = (INFO, All_fixes_applied)"
    by (simp add: logger_quiet [of h, OF q])
  have g: "get_fix_status h ?w1 =
     (Inr [''pandas_warnings'' \<mapsto> True, ''asyncio_warnings'' \<mapsto> True,
          ''binance_timeouts'' \<mapsto> True, ''signal_calculations'' \<mapsto> True,
          ''memory_optimization'' \<mapsto> True], ?w2)"
    by (rule get_fix_status_eq [OF q])
  have e1: "environ ?w1 = environ (snd (fix_binance_client_timeouts h w))"
    by (simp add: logger_keeps environ_after_all)
  have e2: "environ ?w2 = environ (snd (fix_binance_client_timeouts h ?w1))"
    by (rule environ_after_all)
  have t1: "environ ?w1 ''BINANCE_API_TIMEOUT'' = Some ''30''"
    unfolding e1 binance_timeout_value using assms(1) by simp
  have r1: "environ ?w1 ''BINANCE_MAX_RETRIES'' = Some ''3''"
    unfolding e1 binance_retries_value using assms(2) by simp
  have t2: "environ ?w2 ''BINANCE_API_TIMEOUT'' = Some ''30''"
    unfolding e2 binance_timeout_value using t1 by simp
  have r2: "environ ?w2 ''BINANCE_MAX_RETRIES'' = Some ''3''"
    unfolding e2 binance_retries_value using r1 by simp
  have c1: "warning_filters ?w1 = warning_filters w" "event_loop_policy ?w1 = event_loop_policy w"
    "np_errstate ?w1 = np_errstate w"
    using bare_run [OF assms(3-5), of w] by (simp_all add: logger_keeps)
  have c2: "warning_filters ?w2 = warning_filters w" "event_loop_policy ?w2 = event_loop_policy w"
    "np_errstate ?w2 = np_errstate w"
    using bare_run [OF assms(3-5), of ?w1] c1 by simp_all
  from a l t1 r1 g t2 r2 c2 show ?thesis by blast
qed

text \<open>The POSIX host without the optional libraries, whose logger returns, from the fresh
  world.\<close>

theorem bare_posix_scenario_witness:
  "\<exists>w1 w2.
     apply_fixes bare_posix_host fresh_world = (None, w1) \<and>
     last (log_records w1) = (INFO, All_fixes_applied) \<and>
     environ w1 ''BINANCE_API_TIMEOUT'' = Some ''30'' \<and>
     environ w1 ''BINANCE_MAX_RETRIES'' = Some ''3'' \<and>
     get_fix_status bare_posix_host w1 =
       (Inr [''pandas_warnings'' \<mapsto> True, ''asyncio_warnings'' \<mapsto> True,
          ''binance_timeouts'' \<mapsto> True, ''signal_calculations'' \<mapsto> True,
          ''memory_optimization'' \<mapsto> True], w2) \<and>
     environ w2 ''BINANCE_API_TIMEOUT'' = Some ''30'' \<and>
     environ w2 ''BINANCE_MAX_RETRIES'' = Some ''3''"
proof -
  have "environ fresh_world ''BINANCE_API_TIMEOUT'' = None"
    and "environ fresh_world ''BINANCE_MAX_RETRIES'' = None"
    and "raises bare_posix_host Import_pandas = Some (ImportError ''No module named pandas'')"
    and "raises bare_posix_host Import_numpy = Some (ImportError ''No module named numpy'')"
    and "platform_system bare_posix_host \<noteq> ''Windows''"
    and "\<And>l m. log_raises bare_posix_host l m = None"
    by (simp_all add: fresh_world_def bare_posix_host_def)
  from bare_posix_scenario [OF this] show ?thesis by blast
qed

end
